theory Spec2Isabelle
  imports Complex_Main
begin

section \<open>Data model\<close>

text \<open>
  A shallow embedding of \<^verbatim>\<open>src/skycatalogs/objects/snana_object.py\<close>.
  Python floats are idealised as real numbers, Python's \<^verbatim>\<open>None\<close> as the value
  \<open>None\<close> of an option type, and every exception the code can raise is a value of
  \<open>error\<close>, returned as \<open>Inl\<close>.

  \<^item> \<open>ValueError\<close>: raised by \<^verbatim>\<open>_get_sed\<close> when no time is available;
  \<^item> \<open>SkyCatalogsRuntimeError\<close>: raised by \<^verbatim>\<open>get_LSST_flux\<close> on a negative flux;
  \<^item> \<open>KeyError\<close>: a group or dataset that the HDF5 file does not hold;
  \<^item> \<open>IndexError\<close>: an index outside a dataset;
  \<^item> \<open>TypeError\<close>: arithmetic or a comparison with \<^verbatim>\<open>None\<close>;
  \<^item> \<open>GalSimValueError\<close>, \<open>GalSimIncompatibleValuesError\<close>: arrays from which
    \<^verbatim>\<open>galsim.LookupTable\<close> builds no table.
\<close>

datatype error =
  ValueError | TypeError | KeyError | IndexError | SkyCatalogsRuntimeError
  | GalSimValueError | GalSimIncompatibleValuesError

text \<open>
  The HDF5 file of SEDs: one group per object id. The one-dimensional datasets of a group
  (\<^verbatim>\<open>mjd\<close>, \<^verbatim>\<open>lambda\<close>, \<^verbatim>\<open>magcor_<band>\<close>) and its two-dimensional
  ones (\<^verbatim>\<open>flambda\<close>, one row per epoch) are looked up by name.
\<close>

record sed_group =
  vectors :: "string \<rightharpoonup> real list"
  tables :: "string \<rightharpoonup> real list list"

type_synonym sed_file = "string \<rightharpoonup> sed_group"

text \<open>Storage accesses, recorded in the order in which the code makes them.\<close>

datatype io_event = OpenFile | Lookup string string

text \<open>The triple returned by \<^verbatim>\<open>_find_mjd_interval\<close>: index below, index above, fraction.\<close>

type_synonym bracket = "nat \<times> nat \<times> real option"

text \<open>
  A \<^verbatim>\<open>galsim.SED\<close> built from a linear lookup table is kept as the two arrays the
  table is built from: the wavelengths and the flux densities.
\<close>

type_synonym sed = "real list \<times> real list"

text \<open>
  \<^verbatim>\<open>galsim.LookupTable(x, f, interpolant='linear')\<close>, a library call of line 164. It
  checks its arrays before it builds the table: arrays of different lengths raise
  \<^verbatim>\<open>GalSimIncompatibleValuesError\<close>; fewer than two points, and points that all have
  one \<open>x\<close>, raise \<^verbatim>\<open>GalSimValueError\<close>. \<^verbatim>\<open>galsim.SED\<close> of line 167, with the
  wave type \<^verbatim>\<open>'A'\<close> and the flux type \<^verbatim>\<open>'flambda'\<close>, accepts every such table.
\<close>

definition LookupTable :: "real list \<Rightarrow> real list \<Rightarrow> error + sed" where
  "LookupTable x f =
     (if length x \<noteq> length f then Inl GalSimIncompatibleValuesError
      else if length x < 2 then Inl GalSimValueError
      else if list_all (\<lambda>e. e = x ! 0) x then Inl GalSimValueError
      else Inr (x, f))"

text \<open>
  The state of one \<^verbatim>\<open>SnanaObject\<close>, together with what it reaches through
  \<^verbatim>\<open>self._belongs_to\<close>:
  \<^item> \<open>obj_id\<close> is \<^verbatim>\<open>self._id\<close>; \<open>start_mjd\<close> and \<open>end_mjd\<close> are the native
    attributes of those names;
  \<^item> \<open>mjds\<close> and \<open>lambda\<close> are \<^verbatim>\<open>self._mjds\<close> and \<^verbatim>\<open>self._lambda\<close>;
  \<^item> \<open>mjd_ix\<close> holds \<^verbatim>\<open>self._mjd_ix_l\<close>, \<^verbatim>\<open>self._mjd_ix_u\<close> and
    \<^verbatim>\<open>self._mjd_fraction\<close>: the three are only assigned together (lines 138 to 140)
    and only read after the test of \<^verbatim>\<open>self._mjd_ix_l\<close> (line 117), so they are kept
    as one optional triple;
  \<^item> \<open>belongs_to_mjd\<close> and \<open>belongs_to_SED_file\<close> are \<^verbatim>\<open>self._belongs_to._mjd\<close>
    and the contents of the file named by \<^verbatim>\<open>self._belongs_to._SED_file\<close>;
  \<^item> \<open>io_log\<close> is a ghost field: the storage accesses made so far.
\<close>

record snana_object =
  obj_id :: string
  start_mjd :: real
  end_mjd :: real
  mjds :: "real list option"
  lambda :: "real list option"
  mjd_ix :: "bracket option"
  belongs_to_mjd :: "real option"
  belongs_to_SED_file :: sed_file
  io_log :: "io_event list"

section \<open>Storage access\<close>

definition and_then :: "error + 'a \<Rightarrow> ('a \<Rightarrow> error + 'b) \<Rightarrow> error + 'b" where
  "and_then m f = (case m of Inl e \<Rightarrow> Inl e | Inr x \<Rightarrow> f x)"

text \<open>\<^verbatim>\<open>with h5py.File(self._belongs_to._SED_file, 'r') as f\<close>\<close>

definition open_SED_file :: "snana_object \<Rightarrow> snana_object" where
  "open_SED_file s = s\<lparr>io_log := io_log s @ [OpenFile]\<rparr>"

text \<open>What \<^verbatim>\<open>f[self._id][name]\<close> finds, for a one- and for a two-dimensional dataset.\<close>

definition stored_vector :: "snana_object \<Rightarrow> string \<Rightarrow> real list option" where
  "stored_vector s name =
     (case belongs_to_SED_file s (obj_id s) of None \<Rightarrow> None | Some g \<Rightarrow> vectors g name)"

definition stored_table :: "snana_object \<Rightarrow> string \<Rightarrow> real list list option" where
  "stored_table s name =
     (case belongs_to_SED_file s (obj_id s) of None \<Rightarrow> None | Some g \<Rightarrow> tables g name)"

definition logged :: "string \<Rightarrow> snana_object \<Rightarrow> snana_object" where
  "logged name s = s\<lparr>io_log := io_log s @ [Lookup (obj_id s) name]\<rparr>"

definition read_vector :: "string \<Rightarrow> snana_object \<Rightarrow> error + real list \<times> snana_object" where
  "read_vector name s =
     (case stored_vector s name of None \<Rightarrow> Inl KeyError | Some v \<Rightarrow> Inr (v, logged name s))"

definition read_table ::
  "string \<Rightarrow> snana_object \<Rightarrow> error + real list list \<times> snana_object" where
  "read_table name s =
     (case stored_table s name of None \<Rightarrow> Inl KeyError | Some v \<Rightarrow> Inr (v, logged name s))"

text \<open>
  \<^verbatim>\<open>xs[i]\<close> on an array or a dataset: the indices \<open>-len(xs)\<close> to \<open>-1\<close>
  count from the end, any index outside \<open>-len(xs)\<close> to \<open>len(xs) - 1\<close> raises.
\<close>

definition getitem :: "'a list \<Rightarrow> int \<Rightarrow> error + 'a" where
  "getitem xs i =
     (if 0 \<le> i \<and> i < int (length xs) then Inr (xs ! nat i)
      else if i < 0 \<and> - int (length xs) \<le> i then Inr (xs ! nat (int (length xs) + i))
      else Inl IndexError)"

section \<open>\<^verbatim>\<open>bisect.bisect\<close>\<close>

text \<open>
  The loop of the standard library's \<^verbatim>\<open>bisect_right\<close>:
  \<^verbatim>\<open>
  while lo < hi:
      mid = (lo + hi) // 2
      if x < a[mid]: hi = mid
      else: lo = mid + 1
  return lo
  \<close>
  It is entered with \<open>lo = 0\<close> and \<open>hi = len(a)\<close>, so \<open>mid\<close> is always a valid index.
\<close>

function bisect_right :: "real list \<Rightarrow> real \<Rightarrow> nat \<Rightarrow> nat \<Rightarrow> nat" where
  "bisect_right a x lo hi =
     (if lo < hi
      then (let mid = (lo + hi) div 2
            in if x < a ! mid then bisect_right a x lo mid else bisect_right a x (mid + 1) hi)
      else lo)"
  by pat_completeness auto
termination
  by (relation "measure (\<lambda>(a, x, lo, hi). hi - lo)") auto

declare bisect_right.simps [simp del]

definition bisect :: "real list \<Rightarrow> real \<Rightarrow> nat" where
  "bisect a x = bisect_right a x 0 (length a)"

section \<open>\<^verbatim>\<open>SnanaObject._find_mjd_interval\<close>\<close>

text \<open>
  Lines 110 to 114: the time the call works with, and whether its result is stored.
  \<^verbatim>\<open>not mjd\<close> holds for \<^verbatim>\<open>None\<close> and for \<^verbatim>\<open>0.0\<close>.
\<close>

definition query_mjd :: "real option \<Rightarrow> snana_object \<Rightarrow> real option \<times> bool" where
  "query_mjd mjd s =
     (if mjd = None \<or> mjd = Some 0 then (belongs_to_mjd s, True)
      else (mjd, mjd = belongs_to_mjd s))"

text \<open>Lines 121 to 124: the epoch grid, read from the file on first use.\<close>

definition load_mjds :: "snana_object \<Rightarrow> error + real list \<times> snana_object" where
  "load_mjds s =
     (case mjds s of
        Some g \<Rightarrow> Inr (g, s)
      | None \<Rightarrow>
          and_then (read_vector ''mjd'' (open_SED_file s))
            (\<lambda>(g, s'). Inr (g, s'\<lparr>mjds := Some g\<rparr>)))"

text \<open>
  Lines 126 to 136. When the time is \<^verbatim>\<open>None\<close> (no argument and no time in the
  collection), \<^verbatim>\<open>bisect\<close> raises \<^verbatim>\<open>TypeError\<close> at its first comparison; on an empty
  grid it makes no comparison and returns 0. In the last branch both indices are within
  the grid and the denominator is positive (lemma \<open>interval_denominator_positive\<close>).
\<close>

definition interval :: "real list \<Rightarrow> real option \<Rightarrow> error + bracket" where
  "interval grid mjd =
     (case mjd of
        None \<Rightarrow> if grid = [] then Inr (0, 0, None) else Inl TypeError
      | Some t \<Rightarrow>
          (let index = bisect grid t
           in if index = 0 then Inr (0, 0, None)
              else if index = length grid then Inr (index - 1, index - 1, None)
              else Inr (index - 1, index,
                        Some ((t - grid ! (index - 1)) / (grid ! index - grid ! (index - 1))))))"

definition find_mjd_interval ::
  "real option \<Rightarrow> snana_object \<Rightarrow> error + bracket \<times> snana_object" where
  "find_mjd_interval mjd s =
     (let (mjd', store) = query_mjd mjd s
      in case (if store then mjd_ix s else None) of
           Some b \<Rightarrow> Inr (b, s)
         | None \<Rightarrow>
             and_then (load_mjds s) (\<lambda>(grid, s1).
             and_then (interval grid mjd') (\<lambda>b.
               Inr (b, if store then s1\<lparr>mjd_ix := Some b\<rparr> else s1))))"

section \<open>\<^verbatim>\<open>SnanaObject._linear_interp_SED\<close> and \<^verbatim>\<open>SnanaObject._get_sed\<close>\<close>

text \<open>Lines 152 to 154.\<close>

definition load_grids :: "snana_object \<Rightarrow> error + snana_object" where
  "load_grids s =
     (if mjds s = None \<or> lambda s = None
      then and_then (read_vector ''mjd'' s) (\<lambda>(g, s1).
           and_then (read_vector ''lambda'' s1) (\<lambda>(l, s2).
             Inr (s2\<lparr>mjds := Some g, lambda := Some l\<rparr>)))
      else Inr s)"

text \<open>
  Lines 156 to 162. The first branch reads the dataset \<^verbatim>\<open>flamba\<close>, the second the
  dataset \<^verbatim>\<open>flambda\<close>. The rows of a table have one length, so the arithmetic on
  arrays is pointwise.
\<close>

definition interp_row :: "real option \<Rightarrow> real list \<Rightarrow> real list \<Rightarrow> error + real list" where
  "interp_row mjd_fraction row_below row_above =
     (case mjd_fraction of
        None \<Rightarrow> Inl TypeError
      | Some fr \<Rightarrow> Inr (map2 (\<lambda>b a. b + fr * (a - b)) row_below row_above))"

definition read_flambda :: "bracket \<Rightarrow> snana_object \<Rightarrow> error + real list \<times> snana_object" where
  "read_flambda b s =
     (case b of (mjd_ix_l, mjd_ix_u, mjd_fraction) \<Rightarrow>
        if mjd_ix_l = mjd_ix_u
        then and_then (read_table ''flamba'' s) (\<lambda>(rows, s1).
             and_then (getitem rows (int mjd_ix_l)) (\<lambda>row. Inr (row, s1)))
        else and_then (read_table ''flambda'' s) (\<lambda>(rows, s1).
             and_then (getitem rows (int mjd_ix_u - 1)) (\<lambda>row_below.
             and_then (read_table ''flambda'' s1) (\<lambda>(rows', s2).
             and_then (getitem rows' (int mjd_ix_u)) (\<lambda>row_above.
             and_then (interp_row mjd_fraction row_below row_above) (\<lambda>row. Inr (row, s2)))))))"

text \<open>
  Lines 149 to 167: the bracket, the file, the grids, the row of flux densities, then the
  table over the dataset \<^verbatim>\<open>lambda\<close>, whose checks can raise.
\<close>

definition linear_interp_SED :: "real option \<Rightarrow> snana_object \<Rightarrow> error + sed \<times> snana_object" where
  "linear_interp_SED mjd s =
     and_then (find_mjd_interval mjd s) (\<lambda>(b, s1).
     and_then (load_grids (open_SED_file s1)) (\<lambda>s2.
     and_then (read_flambda b s2) (\<lambda>(flambda, s3).
     and_then (read_vector ''lambda'' s3) (\<lambda>(wave, s4).
     and_then (LookupTable wave flambda) (\<lambda>sd. Inr (sd, s4))))))"

text \<open>\<^verbatim>\<open>_get_sed\<close> returns the SED, or \<^verbatim>\<open>None\<close>, paired with \<^verbatim>\<open>0.0\<close>.\<close>

definition get_sed ::
  "real option \<Rightarrow> snana_object \<Rightarrow> error + (sed option \<times> real) \<times> snana_object" where
  "get_sed mjd s =
     (case (if mjd = None then belongs_to_mjd s else mjd) of
        None \<Rightarrow> Inl ValueError
      | Some t \<Rightarrow>
          if t < start_mjd s \<or> t > end_mjd s then Inr ((None, 0), s)
          else and_then (linear_interp_SED (Some t) s) (\<lambda>(sd, s'). Inr ((Some sd, 0), s')))"

text \<open>
  \<^verbatim>\<open>get_observer_sed_component\<close>; the extinction applied by the base class
  (\<^verbatim>\<open>_apply_component_extinction\<close>) is the parameter \<open>extinction\<close>.
\<close>

definition get_observer_sed_component ::
  "(sed \<Rightarrow> sed) \<Rightarrow> real option \<Rightarrow> snana_object \<Rightarrow> error + sed option \<times> snana_object" where
  "get_observer_sed_component extinction mjd s =
     and_then (get_sed mjd s) (\<lambda>((sd, magnorm), s').
       Inr (case sd of None \<Rightarrow> None | Some x \<Rightarrow> Some (extinction x), s'))"

section \<open>\<^verbatim>\<open>SnanaObject.get_LSST_flux\<close>\<close>

text \<open>The nested function \<^verbatim>\<open>_flux_ratio\<close>, with the literal of line 55.\<close>

definition flux_ratio :: "real \<Rightarrow> real" where
  "flux_ratio mag = exp (- (921034037196184 / 10 ^ 15) * mag)"

text \<open>Lines 75 to 79, on the correction series \<open>cors\<close>.\<close>

definition mag_cor :: "bracket \<Rightarrow> real list \<Rightarrow> error + real" where
  "mag_cor b cors =
     (case b of (mjd_ix_l, mjd_ix_u, mjd_fraction) \<Rightarrow>
        if mjd_ix_l = mjd_ix_u then getitem cors (int mjd_ix_l)
        else and_then (getitem cors (int mjd_ix_l)) (\<lambda>lower.
             and_then (getitem cors (int mjd_ix_u)) (\<lambda>upper.
               case mjd_fraction of
                 None \<Rightarrow> Inl TypeError
               | Some fr \<Rightarrow> Inr (lower + fr * (upper - lower)))))"

text \<open>
  \<^verbatim>\<open>get_LSST_flux\<close> with the default \<^verbatim>\<open>sed=None\<close>. The method of the base class that
  line 57 calls is the parameter \<open>super_get_LSST_flux\<close>: it returns the uncorrected flux
  and the state it leaves. A \<^verbatim>\<open>KeyError\<close> of the lookup of line 69 is caught.
\<close>

definition get_LSST_flux ::
  "(string \<Rightarrow> real option \<Rightarrow> snana_object \<Rightarrow> error + real \<times> snana_object) \<Rightarrow>
   string \<Rightarrow> real option \<Rightarrow> snana_object \<Rightarrow> error + real \<times> snana_object" where
  "get_LSST_flux super_get_LSST_flux band mjd s =
     and_then (super_get_LSST_flux band mjd s) (\<lambda>(flux, s0).
       if flux < 0 then Inl SkyCatalogsRuntimeError
       else if flux = 0 then Inr (flux, s0)
       else and_then (find_mjd_interval mjd s0) (\<lambda>(b, s1).
              let s2 = logged (''magcor_'' @ band) (open_SED_file s1)
              in case stored_vector s1 (''magcor_'' @ band) of
                   None \<Rightarrow> Inr (flux, s2)
                 | Some cors \<Rightarrow>
                     and_then (mag_cor b cors) (\<lambda>m. Inr (flux * flux_ratio m, s2))))"

section \<open>The flux of the base class\<close>

text \<open>
  Modelled from the spec: the method \<^verbatim>\<open>get_LSST_flux\<close> of the base class
  \<^verbatim>\<open>BaseObject\<close> (module \<^verbatim>\<open>base_object\<close>), which line 57 calls and which is not
  among the sources. The spec describes it as the upstream flux baseline provider, which
  "supplies a non-negative scalar flux for a given band from an already-extinguished
  interpolated SED", and says of a query time outside the validity window that it
  returns "\<^verbatim>\<open>None\<close> for SED and implicitly zero flux upstream". The photometric
  integration is the parameter \<open>calculateFlux\<close>.
\<close>

definition base_get_LSST_flux ::
  "(string \<Rightarrow> sed \<Rightarrow> real) \<Rightarrow> (sed \<Rightarrow> sed) \<Rightarrow>
   string \<Rightarrow> real option \<Rightarrow> snana_object \<Rightarrow> error + real \<times> snana_object" where
  "base_get_LSST_flux calculateFlux extinction band mjd s =
     and_then (get_observer_sed_component extinction mjd s) (\<lambda>(sd, s').
       case sd of None \<Rightarrow> Inr (0, s') | Some x \<Rightarrow> Inr (calculateFlux band x, s'))"

section \<open>Invariants of the caches\<close>

text \<open>
  \<open>epoch_grid_is T s\<close>: the file holds the epoch grid \<open>T\<close> for the object, and the
  grid that the object has loaded, if any, is \<open>T\<close>. \<open>mjd_ix_ok T s\<close>: a stored
  bracket is the one that lines 126 to 136 compute for the time of the collection. A new
  object satisfies both (lemma \<open>new_SnanaObject_invariants\<close>), and the methods that
  change the object keep both while the collection keeps its time (lemmas
  \<open>find_mjd_interval_interval\<close>, \<open>linear_interp_SED_invariants\<close>,
  \<open>get_sed_invariants\<close>).
\<close>

definition epoch_grid_is :: "real list \<Rightarrow> snana_object \<Rightarrow> bool" where
  "epoch_grid_is T s =
     (stored_vector s ''mjd'' = Some T \<and> (case mjds s of None \<Rightarrow> True | Some g \<Rightarrow> g = T))"

definition mjd_ix_ok :: "real list \<Rightarrow> snana_object \<Rightarrow> bool" where
  "mjd_ix_ok T s =
     (case mjd_ix s of None \<Rightarrow> True | Some b \<Rightarrow> interval T (belongs_to_mjd s) = Inr b)"

section \<open>The bracket in the words of the spec\<close>

text \<open>
  The insertion point of \<open>t\<close> in a sorted grid: the number of epochs that are at most
  \<open>t\<close>, so that \<open>t\<close> goes after the epochs equal to it. \<open>spec_locate\<close> is the
  triple that the spec gives for each insertion point; \<open>bracket_ok\<close> collects the
  invariants of a bracket that the spec states.
\<close>

definition insertion_point :: "real list \<Rightarrow> real \<Rightarrow> nat" where
  "insertion_point T t = length (filter (\<lambda>e. e \<le> t) T)"

definition spec_locate :: "real list \<Rightarrow> real \<Rightarrow> bracket" where
  "spec_locate T t =
     (let ip = insertion_point T t
      in if ip = 0 then (0, 0, None)
         else if ip = length T then (length T - 1, length T - 1, None)
         else (ip - 1, ip, Some ((t - T ! (ip - 1)) / (T ! ip - T ! (ip - 1)))))"

definition bracket_ok :: "real list \<Rightarrow> real \<Rightarrow> bracket \<Rightarrow> bool" where
  "bracket_ok T t b =
     (case b of (lower_index, upper_index, fraction) \<Rightarrow>
        0 \<le> lower_index \<and> lower_index \<le> upper_index \<and> upper_index \<le> length T - 1 \<and>
        (T ! 0 \<le> t \<and> t \<le> last T \<longrightarrow> T ! lower_index \<le> t \<and> t \<le> T ! upper_index) \<and>
        (t < T ! 0 \<longrightarrow> lower_index = 0 \<and> upper_index = 0) \<and>
        (last T < t \<longrightarrow> lower_index = length T - 1 \<and> upper_index = length T - 1) \<and>
        (lower_index \<noteq> upper_index \<longrightarrow>
           (case fraction of None \<Rightarrow> False | Some x \<Rightarrow> 0 \<le> x \<and> x \<le> 1)))"

section \<open>Example objects\<close>

text \<open>
  \<^verbatim>\<open>SnanaObject.__init__\<close> (lines 14 to 23): no grid loaded, no bracket stored. The
  validity window, the time of the collection and the file are given.
\<close>

definition new_SnanaObject ::
  "string \<Rightarrow> real \<Rightarrow> real \<Rightarrow> real option \<Rightarrow> sed_file \<Rightarrow> snana_object" where
  "new_SnanaObject ident start end coll_mjd file =
     \<lparr>obj_id = ident, start_mjd = start, end_mjd = end, mjds = None, lambda = None,
      mjd_ix = None, belongs_to_mjd = coll_mjd, belongs_to_SED_file = file, io_log = []\<rparr>"

text \<open>
  A file with three objects. \<open>sn1\<close> has the epochs 10, 20, 30, one wavelength channel
  with the flux densities 1, 2, 3, and no magnitude corrections. \<open>sn2\<close> has the epochs
  10, 20 and the corrections 0.0, 0.2 in the band \<open>r\<close>. \<open>sn3\<close> has the epochs of
  \<open>sn1\<close> and two wavelength channels, with the flux densities 1, 2, 3 and 10, 20, 30.
\<close>

definition example_file :: sed_file where
  "example_file =
     [''sn1'' \<mapsto> \<lparr>vectors = [''mjd'' \<mapsto> [10, 20, 30], ''lambda'' \<mapsto> [5000]],
                  tables = [''flambda'' \<mapsto> [[1], [2], [3]]]\<rparr>,
      ''sn2'' \<mapsto> \<lparr>vectors = [''mjd'' \<mapsto> [10, 20], ''lambda'' \<mapsto> [5000],
                             ''magcor_r'' \<mapsto> [0, 2 / 10]],
                  tables = [''flambda'' \<mapsto> [[1], [2]]]\<rparr>,
      ''sn3'' \<mapsto> \<lparr>vectors = [''mjd'' \<mapsto> [10, 20, 30], ''lambda'' \<mapsto> [5000, 6000]],
                  tables = [''flambda'' \<mapsto> [[1, 10], [2, 20], [3, 30]]]\<rparr>]"

definition sn1 :: snana_object where
  "sn1 = new_SnanaObject ''sn1'' 0 100 (Some 15) example_file"

text \<open>\<open>sn1\<close> after a first call of \<^verbatim>\<open>_find_mjd_interval\<close> at the time of the collection.\<close>

definition sn1_located :: snana_object where
  "sn1_located =
     sn1\<lparr>mjds := Some [10, 20, 30], mjd_ix := Some (0, 1, Some (1 / 2)),
         io_log := [OpenFile, Lookup ''sn1'' ''mjd'']\<rparr>"

definition sn2 :: snana_object where
  "sn2 = new_SnanaObject ''sn2'' 0 100 (Some 15) example_file"

definition sn3 :: snana_object where
  "sn3 = new_SnanaObject ''sn3'' 0 100 (Some 15) example_file"

text \<open>
  \<open>sn1_no_time\<close>: the same object, new, in a collection with no time.
  \<open>sn1_time_unset\<close>: the object after its first call, the collection having dropped
  its time since. \<open>sn1_late\<close>: the same object with the validity window 100 to 200.
\<close>

definition sn1_no_time :: snana_object where
  "sn1_no_time = new_SnanaObject ''sn1'' 0 100 None example_file"

definition sn1_time_unset :: snana_object where
  "sn1_time_unset = sn1_located\<lparr>belongs_to_mjd := None\<rparr>"

definition sn1_late :: snana_object where
  "sn1_late = new_SnanaObject ''sn1'' 100 200 None example_file"

lemmas snana_defs =
  and_then_def open_SED_file_def stored_vector_def stored_table_def logged_def
  read_vector_def read_table_def getitem_def query_mjd_def load_mjds_def interval_def
  find_mjd_interval_def load_grids_def interp_row_def read_flambda_def linear_interp_SED_def
  get_sed_def get_observer_sed_component_def mag_cor_def get_LSST_flux_def
  base_get_LSST_flux_def new_SnanaObject_def example_file_def sn1_def sn1_located_def sn2_def
  sn1_no_time_def sn1_time_unset_def sn1_late_def sn3_def LookupTable_def

section \<open>The binary search\<close>

lemma bisect_right_stop: "\<not> lo < hi \<Longrightarrow> bisect_right a x lo hi = lo"
  by (subst bisect_right.simps) simp

lemma bisect_right_left:
  "lo < hi \<Longrightarrow> x < a ! ((lo + hi) div 2) \<Longrightarrow>
   bisect_right a x lo hi = bisect_right a x lo ((lo + hi) div 2)"
  by (subst bisect_right.simps) simp

lemma bisect_right_right:
  "lo < hi \<Longrightarrow> \<not> x < a ! ((lo + hi) div 2) \<Longrightarrow>
   bisect_right a x lo hi = bisect_right a x ((lo + hi) div 2 + 1) hi"
  by (subst bisect_right.simps) simp

lemma bisect_right_bounds:
  "lo \<le> hi \<Longrightarrow> lo \<le> bisect_right a x lo hi \<and> bisect_right a x lo hi \<le> hi"
proof (induction a x lo hi rule: bisect_right.induct)
  case (1 a x lo hi)
  show ?case
  proof (cases "lo < hi")
    case False
    then show ?thesis using "1.prems" by (simp add: bisect_right_stop)
  next
    case True
    define mid where "mid = (lo + hi) div 2"
    have m: "lo \<le> mid" "mid < hi" using True by (simp_all add: mid_def)
    show ?thesis
    proof (cases "x < a ! mid")
      case lt: True
      have "bisect_right a x lo hi = bisect_right a x lo mid"
        using True lt unfolding mid_def by (rule bisect_right_left)
      with "1.IH"(1) [OF True mid_def lt] m show ?thesis by simp
    next
      case ge: False
      have "bisect_right a x lo hi = bisect_right a x (mid + 1) hi"
        using True ge unfolding mid_def by (rule bisect_right_right)
      with "1.IH"(2) [OF True mid_def ge] m show ?thesis by simp
    qed
  qed
qed

text \<open>
  Whatever the order of the list, the element before the insertion point is at most \<open>x\<close>
  and the element at it is greater: the denominator of line 136 is positive.
\<close>

lemma bisect_right_neighbours:
  "lo \<le> hi \<Longrightarrow> hi \<le> length a \<Longrightarrow>
   (0 < lo \<longrightarrow> a ! (lo - 1) \<le> x) \<Longrightarrow> (hi < length a \<longrightarrow> x < a ! hi) \<Longrightarrow>
   (0 < bisect_right a x lo hi \<longrightarrow> a ! (bisect_right a x lo hi - 1) \<le> x) \<and>
   (bisect_right a x lo hi < length a \<longrightarrow> x < a ! (bisect_right a x lo hi))"
proof (induction a x lo hi rule: bisect_right.induct)
  case (1 a x lo hi)
  show ?case
  proof (cases "lo < hi")
    case False
    with "1.prems" have "lo = hi" by simp
    with "1.prems" show ?thesis by (simp add: bisect_right_stop)
  next
    case True
    define mid where "mid = (lo + hi) div 2"
    have m: "lo \<le> mid" "mid < hi" using True by (simp_all add: mid_def)
    show ?thesis
    proof (cases "x < a ! mid")
      case lt: True
      have eq: "bisect_right a x lo hi = bisect_right a x lo mid"
        using True lt unfolding mid_def by (rule bisect_right_left)
      show ?thesis
        unfolding eq using "1.IH"(1) [OF True mid_def lt] m "1.prems" lt by simp
    next
      case ge: False
      have eq: "bisect_right a x lo hi = bisect_right a x (mid + 1) hi"
        using True ge unfolding mid_def by (rule bisect_right_right)
      show ?thesis
        unfolding eq using "1.IH"(2) [OF True mid_def ge] m "1.prems" ge by simp
    qed
  qed
qed

lemma bisect_le_length: "bisect a x \<le> length a"
  using bisect_right_bounds [of 0 "length a" a x] by (simp add: bisect_def)

lemma bisect_neighbours:
  "(0 < bisect a x \<longrightarrow> a ! (bisect a x - 1) \<le> x) \<and>
   (bisect a x < length a \<longrightarrow> x < a ! (bisect a x))"
  using bisect_right_neighbours [of 0 "length a" a x] by (simp add: bisect_def)

text \<open>The division of line 135 is never a division by zero.\<close>

lemma interval_denominator_positive:
  assumes "0 < bisect a x" and "bisect a x < length a"
  shows "0 < a ! bisect a x - a ! (bisect a x - 1)"
  using bisect_neighbours [of a x] assms by simp

lemma sorted_split_count:
  assumes "sorted a" and "r \<le> length a"
    and "0 < r \<longrightarrow> a ! (r - 1) \<le> (x::real)" and "r < length a \<longrightarrow> x < a ! r"
  shows "length (filter (\<lambda>e. e \<le> x) a) = r"
proof -
  have lo: "\<forall>e \<in> set (take r a). e \<le> x"
  proof
    fix e assume "e \<in> set (take r a)"
    then obtain i where i: "i < r" "e = a ! i"
      using assms(2) by (auto simp: in_set_conv_nth)
    with assms(1,2) have "a ! i \<le> a ! (r - 1)"
      by (intro sorted_nth_mono) auto
    with i assms(3) show "e \<le> x" by auto
  qed
  have hi: "\<forall>e \<in> set (drop r a). \<not> e \<le> x"
  proof
    fix e assume "e \<in> set (drop r a)"
    then obtain i where i: "i < length a - r" "e = a ! (r + i)"
      by (auto simp: in_set_conv_nth)
    with assms(1) have "a ! r \<le> a ! (r + i)"
      by (intro sorted_nth_mono) auto
    with i assms(4) show "\<not> e \<le> x" by auto
  qed
  have "filter (\<lambda>e. e \<le> x) a = filter (\<lambda>e. e \<le> x) (take r a @ drop r a)" by simp
  also have "\<dots> = take r a" using lo hi by (simp only: filter_append) (simp add: filter_empty_conv)
  finally show ?thesis using assms(2) by simp
qed

lemma bisect_sorted: "sorted a \<Longrightarrow> bisect a x = length (filter (\<lambda>e. e \<le> x) a)"
  using sorted_split_count [of a "bisect a x" x] bisect_le_length [of a x] bisect_neighbours [of a x]
  by simp

section \<open>The bracket of \<^verbatim>\<open>_find_mjd_interval\<close>\<close>

lemma load_mjds_grid:
  "epoch_grid_is T s \<Longrightarrow>
   \<exists>s1. load_mjds s = Inr (T, s1) \<and> mjds s1 = Some T \<and> mjd_ix s1 = mjd_ix s \<and>
        belongs_to_mjd s1 = belongs_to_mjd s \<and> belongs_to_SED_file s1 = belongs_to_SED_file s \<and>
        obj_id s1 = obj_id s"
  by (auto simp: epoch_grid_is_def load_mjds_def read_vector_def and_then_def stored_vector_def
      open_SED_file_def logged_def split: option.splits)

lemma query_mjd_store:
  "query_mjd mjd s = (tq, True) \<Longrightarrow> tq = belongs_to_mjd s"
  by (auto simp: query_mjd_def split: if_splits)

lemma find_mjd_interval_interval:
  assumes g: "epoch_grid_is T s" and c: "mjd_ix_ok T s"
  shows "case interval T (fst (query_mjd mjd s)) of
           Inl e \<Rightarrow> find_mjd_interval mjd s = Inl e
         | Inr b \<Rightarrow> \<exists>s'. find_mjd_interval mjd s = Inr (b, s') \<and>
                      epoch_grid_is T s' \<and> mjd_ix_ok T s' \<and>
                      belongs_to_mjd s' = belongs_to_mjd s \<and>
                      belongs_to_SED_file s' = belongs_to_SED_file s \<and> obj_id s' = obj_id s"
proof -
  obtain tq store where q: "query_mjd mjd s = (tq, store)" by (cases "query_mjd mjd s")
  show ?thesis
  proof (cases "store \<and> mjd_ix s \<noteq> None")
    case True
    then obtain b where b: "mjd_ix s = Some b" by auto
    from True q have "tq = belongs_to_mjd s" by (auto dest: query_mjd_store)
    with c b have "interval T tq = Inr b" by (simp add: mjd_ix_ok_def)
    moreover have "find_mjd_interval mjd s = Inr (b, s)"
      using True q b by (simp add: find_mjd_interval_def)
    ultimately show ?thesis using g c q by auto
  next
    case False
    from load_mjds_grid [OF g] obtain s1 where
      s1: "load_mjds s = Inr (T, s1)" "mjds s1 = Some T" "mjd_ix s1 = mjd_ix s"
        "belongs_to_mjd s1 = belongs_to_mjd s" "belongs_to_SED_file s1 = belongs_to_SED_file s"
        "obj_id s1 = obj_id s"
      by blast
    have f: "find_mjd_interval mjd s =
        and_then (interval T tq) (\<lambda>b. Inr (b, if store then s1\<lparr>mjd_ix := Some b\<rparr> else s1))"
    proof -
      from False have "(if store then mjd_ix s else None) = None" by (cases store; cases "mjd_ix s") auto
      then show ?thesis using q s1(1) by (simp add: find_mjd_interval_def and_then_def)
    qed
    show ?thesis
    proof (cases "interval T tq")
      case (Inl e)
      with f q show ?thesis by (simp add: and_then_def)
    next
      case (Inr b)
      have "epoch_grid_is T (if store then s1\<lparr>mjd_ix := Some b\<rparr> else s1)"
        using s1 g by (simp add: epoch_grid_is_def stored_vector_def)
      moreover have "mjd_ix_ok T (if store then s1\<lparr>mjd_ix := Some b\<rparr> else s1)"
      proof (cases store)
        case True
        with q have "tq = belongs_to_mjd s" by (auto dest: query_mjd_store)
        with True Inr s1 show ?thesis by (simp add: mjd_ix_ok_def)
      next
        case False
        with c s1 show ?thesis by (simp add: mjd_ix_ok_def split: option.splits)
      qed
      ultimately show ?thesis using f q Inr s1 by (auto simp: and_then_def)
    qed
  qed
qed

text \<open>A new object of a file that holds the grid \<open>T\<close> satisfies both invariants.\<close>

lemma new_SnanaObject_invariants:
  assumes "file ident = Some g" and "vectors g ''mjd'' = Some T"
  shows "epoch_grid_is T (new_SnanaObject ident start end coll_mjd file)"
    and "mjd_ix_ok T (new_SnanaObject ident start end coll_mjd file)"
  using assms by (simp_all add: epoch_grid_is_def mjd_ix_ok_def new_SnanaObject_def stored_vector_def)

lemma interval_spec_locate:
  "sorted T \<Longrightarrow> interval T (Some t) = Inr (spec_locate T t)"
  by (simp add: interval_def bisect_sorted spec_locate_def insertion_point_def Let_def)

lemma find_mjd_interval_returns:
  assumes "epoch_grid_is T s" and "mjd_ix_ok T s" and "interval T (fst (query_mjd mjd s)) = Inr b"
  shows "\<exists>s'. find_mjd_interval mjd s = Inr (b, s')"
  using find_mjd_interval_interval [OF assms(1,2), of mjd] assms(3) by auto

text \<open>With the epoch grid in the file and a time to work with, the call returns a bracket.\<close>

lemma find_mjd_interval_total:
  assumes "epoch_grid_is T s" and "mjd_ix_ok T s" and "fst (query_mjd mjd s) = Some t"
  shows "\<exists>b s'. find_mjd_interval mjd s = Inr (b, s')"
proof -
  obtain b where "interval T (Some t) = Inr b"
    by (cases "interval T (Some t)") (auto simp: interval_def Let_def split: if_splits)
  then have "interval T (fst (query_mjd mjd s)) = Inr b" using assms(3) by simp
  from find_mjd_interval_returns [OF assms(1,2) this] show ?thesis by blast
qed

text \<open>
  On every sorted epoch grid \<open>T\<close> and for every time \<open>t\<close>, the binary search finds the
  insertion point of \<open>t\<close>, and lines 126 to 136 give \<open>(0, 0, None)\<close> when the
  insertion point is 0, \<open>(last, last, None)\<close> when it is the length of the grid, and
  otherwise the indices before and at the insertion point with the fraction
  \<open>(t - T[lower]) / (T[upper] - T[lower])\<close>. Every call of \<^verbatim>\<open>_find_mjd_interval\<close>
  that works with the time \<open>t\<close> (lines 110 to 114), on an object that satisfies the
  invariants of its caches, returns that triple. A call with the argument \<open>0.0\<close> works
  with the time of the collection, not with 0.
\<close>

lemma find_mjd_interval_insertion_point:
  assumes "sorted T"
  shows "bisect T t = insertion_point T t \<and>
    interval T (Some t) = Inr (spec_locate T t) \<and>
    (epoch_grid_is T s \<and> mjd_ix_ok T s \<and> fst (query_mjd mjd s) = Some t \<longrightarrow>
       (\<exists>s'. find_mjd_interval mjd s = Inr (spec_locate T t, s')))"
proof (intro conjI impI)
  show "bisect T t = insertion_point T t"
    using assms by (simp add: bisect_sorted insertion_point_def)
  show i: "interval T (Some t) = Inr (spec_locate T t)"
    using assms by (rule interval_spec_locate)
  assume "epoch_grid_is T s \<and> mjd_ix_ok T s \<and> fst (query_mjd mjd s) = Some t"
  with i show "\<exists>s'. find_mjd_interval mjd s = Inr (spec_locate T t, s')"
    by (intro find_mjd_interval_returns [of T]) simp_all
qed

lemma sn1_grid: "epoch_grid_is [10, 20, 30] sn1"
  by (simp add: epoch_grid_is_def sn1_def new_SnanaObject_def stored_vector_def example_file_def)

lemma sn1_cache: "mjd_ix_ok [10, 20, 30] sn1"
  by (simp add: mjd_ix_ok_def sn1_def new_SnanaObject_def)

lemma spec_locate_example:
  "spec_locate [10, 20, 30] 15 = (0, 1, Some (1 / 2))"
  "spec_locate [10, 20, 30] 5 = (0, 0, None)"
  "spec_locate [10, 20, 30] 35 = (2, 2, None)"
  by (simp_all add: spec_locate_def insertion_point_def)

text \<open>The brackets of the times 15, 5 and 35 on the grid 10, 20, 30.\<close>

lemma find_mjd_interval_insertion_point_examples:
  "sorted [10, 20, 30 :: real] \<and>
   bisect [10, 20, 30] 15 = 1 \<and> bisect [10, 20, 30] 5 = 0 \<and> bisect [10, 20, 30] 35 = 3 \<and>
   interval [10, 20, 30] (Some 15) = Inr (0, 1, Some (1 / 2)) \<and>
   interval [10, 20, 30] (Some 5) = Inr (0, 0, None) \<and>
   interval [10, 20, 30] (Some 35) = Inr (2, 2, None) \<and>
   epoch_grid_is [10, 20, 30] sn1 \<and> mjd_ix_ok [10, 20, 30] sn1 \<and>
   fst (query_mjd (Some 15) sn1) = Some 15 \<and> fst (query_mjd (Some 5) sn1) = Some 5 \<and>
   fst (query_mjd (Some 35) sn1) = Some 35 \<and>
   (\<exists>s'. find_mjd_interval (Some 15) sn1 = Inr ((0, 1, Some (1 / 2)), s')) \<and>
   (\<exists>s'. find_mjd_interval (Some 5) sn1 = Inr ((0, 0, None), s')) \<and>
   (\<exists>s'. find_mjd_interval (Some 35) sn1 = Inr ((2, 2, None), s'))"
proof -
  have s: "sorted [10, 20, 30 :: real]" by simp
  have q: "fst (query_mjd (Some 15) sn1) = Some 15" "fst (query_mjd (Some 5) sn1) = Some 5"
    "fst (query_mjd (Some 35) sn1) = Some 35"
    by (simp_all add: query_mjd_def)
  have ip: "insertion_point [10, 20, 30] 15 = 1" "insertion_point [10, 20, 30] 5 = 0"
    "insertion_point [10, 20, 30] 35 = 3"
    by (simp_all add: insertion_point_def)
  show ?thesis
    using find_mjd_interval_insertion_point [OF s, of 15 sn1 "Some 15"]
      find_mjd_interval_insertion_point [OF s, of 5 sn1 "Some 5"]
      find_mjd_interval_insertion_point [OF s, of 35 sn1 "Some 35"]
      s sn1_grid sn1_cache q
    by (simp add: spec_locate_example ip)
qed

text \<open>
  On the empty grid the bracket is \<open>(0, 0, None)\<close>. On a sorted non-empty grid both
  indices are equal when the time is before the first epoch, and when it is at or after
  the last one.
\<close>

lemma interval_empty: "interval [] mjd = Inr (0, 0, None)"
  by (cases mjd) (simp_all add: interval_def bisect_def bisect_right_stop)

lemma interval_equal_indices:
  assumes "sorted T" and "T \<noteq> []" and "interval T (Some t) = Inr (l, u, f)"
  shows "l = u \<longleftrightarrow> t < T ! 0 \<or> last T \<le> t"
proof -
  define i where "i = bisect T t"
  have le: "i \<le> length T" unfolding i_def by (rule bisect_le_length)
  have nb: "0 < i \<longrightarrow> T ! (i - 1) \<le> t" "i < length T \<longrightarrow> t < T ! i"
    using bisect_neighbours [of T t] by (simp_all add: i_def)
  have len: "0 < length T" using assms(2) by simp
  have last: "last T = T ! (length T - 1)" using assms(2) by (rule last_conv_nth)
  have mono: "\<And>j k. j \<le> k \<Longrightarrow> k < length T \<Longrightarrow> T ! j \<le> T ! k"
    using assms(1) by (rule sorted_nth_mono)
  consider (first) "i = 0" | (past) "i \<noteq> 0" "i = length T" | (inner) "i \<noteq> 0" "i \<noteq> length T"
    by blast
  then show ?thesis
  proof cases
    case first
    with assms(3) nb(2) len show ?thesis
      by (simp add: interval_def i_def [symmetric])
  next
    case past
    with assms(3) nb(1) show ?thesis
      by (simp add: interval_def i_def [symmetric] Let_def last)
  next
    case inner
    then have i: "0 < i" "i < length T" using le by simp_all
    have b: "T ! (i - 1) \<le> t" "t < T ! i" using nb i by simp_all
    have "T ! 0 \<le> T ! (i - 1)" using i by (intro mono) simp_all
    with b have n0: "\<not> t < T ! 0" by simp
    have "T ! i \<le> T ! (length T - 1)" using i by (intro mono) simp_all
    with b have n1: "\<not> last T \<le> t" by (simp add: last)
    from inner assms(3) have "l = i - 1 \<and> u = i"
      by (auto simp: interval_def i_def [symmetric] Let_def)
    with i n0 n1 show ?thesis by simp
  qed
qed

lemma interval_invariants:
  assumes "sorted T" and "T \<noteq> []"
  shows "\<exists>l u f. interval T (Some t) = Inr (l, u, f) \<and>
     l \<le> u \<and> u \<le> length T - 1 \<and>
     (T ! 0 \<le> t \<and> t \<le> last T \<longrightarrow> T ! l \<le> t \<and> t \<le> T ! u) \<and>
     (t < T ! 0 \<longrightarrow> l = 0 \<and> u = 0) \<and>
     (last T < t \<longrightarrow> l = length T - 1 \<and> u = length T - 1) \<and>
     (l \<noteq> u \<longrightarrow> (\<exists>x. f = Some x \<and> 0 \<le> x \<and> x \<le> 1))"
proof -
  define i where "i = bisect T t"
  have le: "i \<le> length T" unfolding i_def by (rule bisect_le_length)
  have nb: "0 < i \<longrightarrow> T ! (i - 1) \<le> t" "i < length T \<longrightarrow> t < T ! i"
    using bisect_neighbours [of T t] by (simp_all add: i_def)
  have len: "0 < length T" using assms(2) by simp
  have last: "last T = T ! (length T - 1)" using assms(2) by (rule last_conv_nth)
  have mono: "\<And>j k. j \<le> k \<Longrightarrow> k < length T \<Longrightarrow> T ! j \<le> T ! k"
    using assms(1) by (rule sorted_nth_mono)
  consider (first) "i = 0" | (past) "i \<noteq> 0" "i = length T" | (inner) "i \<noteq> 0" "i \<noteq> length T"
    by blast
  then show ?thesis
  proof cases
    case first
    then have iv: "interval T (Some t) = Inr (0, 0, None)"
      by (simp add: interval_def i_def [symmetric])
    have lt: "t < T ! 0" using nb(2) first len by simp
    have "T ! 0 \<le> T ! (length T - 1)" using len by (intro mono) simp_all
    with lt have "\<not> last T < t" by (simp add: last)
    with iv lt show ?thesis by simp
  next
    case past
    then have iv: "interval T (Some t) = Inr (length T - 1, length T - 1, None)"
      by (simp add: interval_def i_def [symmetric] Let_def)
    have ge: "T ! (length T - 1) \<le> t" using nb(1) past by simp
    have "T ! 0 \<le> T ! (length T - 1)" using len by (intro mono) simp_all
    with ge have "\<not> t < T ! 0" by simp
    with iv ge show ?thesis by (simp add: last)
  next
    case inner
    then have iv: "interval T (Some t) =
        Inr (i - 1, i, Some ((t - T ! (i - 1)) / (T ! i - T ! (i - 1))))"
      by (simp add: interval_def i_def [symmetric] Let_def)
    have i: "0 < i" "i < length T" using inner le by simp_all
    have b: "T ! (i - 1) \<le> t" "t < T ! i" using nb i by simp_all
    have "T ! 0 \<le> T ! (i - 1)" using i by (intro mono) simp_all
    with b have n0: "\<not> t < T ! 0" by simp
    have "T ! i \<le> T ! (length T - 1)" using i by (intro mono) simp_all
    with b have n1: "\<not> last T < t" by (simp add: last)
    have fr: "0 \<le> (t - T ! (i - 1)) / (T ! i - T ! (i - 1))"
      "(t - T ! (i - 1)) / (T ! i - T ! (i - 1)) \<le> 1"
      using b by simp_all
    show ?thesis using iv i b n0 n1 fr by simp
  qed
qed

lemma interval_bracket_ok:
  assumes "sorted T" and "T \<noteq> []"
  shows "\<exists>b. interval T (Some t) = Inr b \<and> bracket_ok T t b"
  using interval_invariants [OF assms, of t] by (auto simp: bracket_ok_def)

text \<open>
  On every sorted, non-empty epoch grid \<open>T\<close> and for every time \<open>t\<close>, the
  bracket of lines 126 to 136 satisfies \<open>0 \<le> lower \<le> upper \<le> len(T) - 1\<close>;
  \<open>T[lower] \<le> t \<le> T[upper]\<close> when \<open>t\<close> lies within \<open>[T[0], T[-1]]\<close>; both indices
  are 0 when \<open>t\<close> is before the grid and both are the last index when \<open>t\<close> is after
  it; and the fraction lies in \<open>[0, 1]\<close> when the indices differ. Every call of
  \<^verbatim>\<open>_find_mjd_interval\<close> that works with the time \<open>t\<close>, on an object that satisfies
  the invariants of its caches, returns such a bracket.
\<close>

lemma find_mjd_interval_invariants:
  assumes "sorted T" and "T \<noteq> []"
  shows "(\<exists>b. interval T (Some t) = Inr b \<and> bracket_ok T t b) \<and>
    (epoch_grid_is T s \<and> mjd_ix_ok T s \<and> fst (query_mjd mjd s) = Some t \<longrightarrow>
       (\<exists>b s'. find_mjd_interval mjd s = Inr (b, s') \<and> bracket_ok T t b))"
proof (intro conjI impI)
  from interval_bracket_ok [OF assms, of t] obtain b where
    b: "interval T (Some t) = Inr b" "bracket_ok T t b"
    by blast
  then show "\<exists>b. interval T (Some t) = Inr b \<and> bracket_ok T t b" by blast
  assume "epoch_grid_is T s \<and> mjd_ix_ok T s \<and> fst (query_mjd mjd s) = Some t"
  with b(1) have "\<exists>s'. find_mjd_interval mjd s = Inr (b, s')"
    by (intro find_mjd_interval_returns [of T]) simp_all
  with b(2) show "\<exists>b s'. find_mjd_interval mjd s = Inr (b, s') \<and> bracket_ok T t b" by blast
qed

lemma find_mjd_interval_invariants_examples:
  "sorted [10, 20, 30 :: real] \<and> [10, 20, 30 :: real] \<noteq> [] \<and>
   epoch_grid_is [10, 20, 30] sn1 \<and> mjd_ix_ok [10, 20, 30] sn1 \<and>
   fst (query_mjd (Some 15) sn1) = Some 15 \<and>
   (\<exists>b s'. find_mjd_interval (Some 15) sn1 = Inr (b, s') \<and> bracket_ok [10, 20, 30] 15 b) \<and>
   bracket_ok [10, 20, 30] 15 (0, 1, Some (1 / 2)) \<and> bracket_ok [10, 20, 30] 5 (0, 0, None) \<and>
   bracket_ok [10, 20, 30] 35 (2, 2, None) \<and> \<not> bracket_ok [10, 20, 30] 15 (0, 0, None)"
proof -
  have s: "sorted [10, 20, 30 :: real]" and n: "[10, 20, 30 :: real] \<noteq> []" by simp_all
  have q: "fst (query_mjd (Some 15) sn1) = Some 15" by (simp add: query_mjd_def)
  have ok: "bracket_ok [10, 20, 30] 15 (0, 1, Some (1 / 2))" "bracket_ok [10, 20, 30] 5 (0, 0, None)"
    "bracket_ok [10, 20, 30] 35 (2, 2, None)" "\<not> bracket_ok [10, 20, 30] 15 (0, 0, None)"
    by (simp_all add: bracket_ok_def)
  show ?thesis
    using find_mjd_interval_invariants [OF s n, of 15 sn1 "Some 15"] s sn1_grid sn1_cache q ok
    by simp
qed

text \<open>The binary search on the example grids.\<close>

lemma bisect_example [simp]:
  "bisect [10, 20, 30] 15 = 1" "bisect [10, 20, 30] 5 = 0" "bisect [10, 20, 30] 35 = 3"
  "bisect [10, 20, 30] 0 = 0" "bisect [10, 20] 15 = 1"
  by (simp_all add: bisect_sorted)

lemma sn1_first_call:
  "find_mjd_interval None sn1 = Inr ((0, 1, Some (1 / 2)), sn1_located)"
  by (simp add: snana_defs)

section \<open>The invariants are kept\<close>

text \<open>
  Reading the file only extends the log; \<^verbatim>\<open>_linear_interp_SED\<close> and \<^verbatim>\<open>_get_sed\<close>
  load the grids from the file and call \<^verbatim>\<open>_find_mjd_interval\<close>, so they keep the
  invariants of the caches.
\<close>

lemma load_grids_invariants:
  assumes "epoch_grid_is T s" and "mjd_ix_ok T s" and "load_grids s = Inr s'"
  shows "epoch_grid_is T s' \<and> mjd_ix_ok T s' \<and> belongs_to_mjd s' = belongs_to_mjd s"
  using assms
  by (auto simp: load_grids_def read_vector_def and_then_def logged_def epoch_grid_is_def
      mjd_ix_ok_def stored_vector_def
      split: if_splits option.splits sum.splits)

lemma open_SED_file_invariants:
  "epoch_grid_is T (open_SED_file s) = epoch_grid_is T s"
  "mjd_ix_ok T (open_SED_file s) = mjd_ix_ok T s"
  by (simp_all add: open_SED_file_def epoch_grid_is_def mjd_ix_ok_def stored_vector_def
      cong: option.case_cong)

lemma read_only:
  "read_vector name s = Inr (v, s') \<Longrightarrow> s' = logged name s"
  "read_table name s = Inr (rows, s') \<Longrightarrow> s' = logged name s"
  by (auto simp: read_vector_def read_table_def split: option.splits)

lemma logged_invariants:
  "epoch_grid_is T (logged name s) = epoch_grid_is T s"
  "mjd_ix_ok T (logged name s) = mjd_ix_ok T s"
  "belongs_to_mjd (logged name s) = belongs_to_mjd s"
  by (simp_all add: logged_def epoch_grid_is_def mjd_ix_ok_def stored_vector_def
      cong: option.case_cong)

lemma read_flambda_invariants:
  assumes "read_flambda b s = Inr (row, s')"
  shows "epoch_grid_is T s' = epoch_grid_is T s \<and> mjd_ix_ok T s' = mjd_ix_ok T s \<and>
    belongs_to_mjd s' = belongs_to_mjd s"
  using assms
  by (cases b)
     (auto simp: read_flambda_def and_then_def logged_invariants
       split: if_splits sum.splits prod.splits dest!: read_only)

lemma linear_interp_SED_invariants:
  assumes "epoch_grid_is T s" and "mjd_ix_ok T s" and "linear_interp_SED mjd s = Inr (sd, s')"
  shows "epoch_grid_is T s' \<and> mjd_ix_ok T s' \<and> belongs_to_mjd s' = belongs_to_mjd s"
proof -
  from assms(3) obtain b s1 s2 row s3 wave where
    f: "find_mjd_interval mjd s = Inr (b, s1)" and
    l: "load_grids (open_SED_file s1) = Inr s2" and
    r: "read_flambda b s2 = Inr (row, s3)" and
    w: "read_vector ''lambda'' s3 = Inr (wave, s')"
    by (auto simp: linear_interp_SED_def and_then_def split: sum.splits prod.splits)
  from find_mjd_interval_interval [OF assms(1,2), of mjd] f
  have 1: "epoch_grid_is T s1" "mjd_ix_ok T s1" "belongs_to_mjd s1 = belongs_to_mjd s"
    by (auto split: sum.splits)
  then have "epoch_grid_is T (open_SED_file s1)" "mjd_ix_ok T (open_SED_file s1)"
    by (simp_all add: open_SED_file_invariants)
  from load_grids_invariants [OF this l]
  have 2: "epoch_grid_is T s2" "mjd_ix_ok T s2" "belongs_to_mjd s2 = belongs_to_mjd s"
    using 1 by (simp_all add: open_SED_file_def)
  with read_flambda_invariants [OF r, of T]
  have 3: "epoch_grid_is T s3" "mjd_ix_ok T s3" "belongs_to_mjd s3 = belongs_to_mjd s"
    by simp_all
  with read_only(1) [OF w] show ?thesis by (simp add: logged_invariants)
qed

lemma get_sed_invariants:
  assumes "epoch_grid_is T s" and "mjd_ix_ok T s" and "get_sed mjd s = Inr (r, s')"
  shows "epoch_grid_is T s' \<and> mjd_ix_ok T s' \<and> belongs_to_mjd s' = belongs_to_mjd s"
proof (cases "if mjd = None then belongs_to_mjd s else mjd")
  case None
  with assms(3) show ?thesis by (simp add: get_sed_def)
next
  case (Some t)
  show ?thesis
  proof (cases "t < start_mjd s \<or> t > end_mjd s")
    case True
    with Some assms show ?thesis by (auto simp: get_sed_def)
  next
    case False
    with Some assms(3) obtain sd where "linear_interp_SED (Some t) s = Inr (sd, s')"
      by (auto simp: get_sed_def and_then_def split: sum.splits prod.splits)
    from linear_interp_SED_invariants [OF assms(1,2) this] show ?thesis .
  qed
qed

section \<open>The stored bracket\<close>

text \<open>
  Claim C4. When a bracket is stored, every call of \<^verbatim>\<open>_find_mjd_interval\<close> at the
  time of the collection, given as the argument or omitted, returns the stored triple and
  leaves the object as it is: nothing is computed again, the epoch grid is not read
  again and the log of storage accesses does not grow.
\<close>

theorem find_mjd_interval_cached:
  assumes "mjd_ix s = Some b" and "mjd = None \<or> mjd = belongs_to_mjd s"
  shows "find_mjd_interval mjd s = Inr (b, s)"
proof -
  have "query_mjd mjd s = (belongs_to_mjd s, True)"
    using assms(2) by (auto simp: query_mjd_def)
  with assms(1) show ?thesis by (simp add: find_mjd_interval_def)
qed

theorem find_mjd_interval_cached_witness:
  "find_mjd_interval None sn1 = Inr ((0, 1, Some (1 / 2)), sn1_located) \<and>
   mjd_ix sn1_located = Some (0, 1, Some (1 / 2)) \<and> belongs_to_mjd sn1_located = Some 15 \<and>
   find_mjd_interval None sn1_located = Inr ((0, 1, Some (1 / 2)), sn1_located) \<and>
   find_mjd_interval (Some 15) sn1_located = Inr ((0, 1, Some (1 / 2)), sn1_located)"
proof -
  have c: "mjd_ix sn1_located = Some (0, 1, Some (1 / 2))"
    and m: "belongs_to_mjd sn1_located = Some 15"
    by (simp_all add: sn1_located_def sn1_def new_SnanaObject_def)
  have "find_mjd_interval None sn1_located = Inr ((0, 1, Some (1 / 2)), sn1_located)"
    using c by (rule find_mjd_interval_cached) simp
  moreover have "find_mjd_interval (Some 15) sn1_located = Inr ((0, 1, Some (1 / 2)), sn1_located)"
    using c by (rule find_mjd_interval_cached) (simp add: m)
  ultimately show ?thesis using sn1_first_call c m by simp
qed

text \<open>
  A call changes neither the collection nor the window of the object, and a call at the
  time of the collection leaves its bracket stored.
\<close>

lemma find_mjd_interval_frame:
  "find_mjd_interval mjd s = Inr (b, s') \<Longrightarrow>
   belongs_to_mjd s' = belongs_to_mjd s \<and> belongs_to_SED_file s' = belongs_to_SED_file s \<and>
   obj_id s' = obj_id s \<and> start_mjd s' = start_mjd s \<and> end_mjd s' = end_mjd s"
  by (cases "query_mjd mjd s")
     (auto simp: find_mjd_interval_def and_then_def load_mjds_def read_vector_def
        open_SED_file_def logged_def
       split: option.splits sum.splits if_splits prod.splits)

lemma find_mjd_interval_stores:
  assumes "snd (query_mjd mjd s)" and "find_mjd_interval mjd s = Inr (b, s')"
  shows "mjd_ix s' = Some b"
  using assms
  by (cases "query_mjd mjd s")
     (auto simp: find_mjd_interval_def and_then_def load_mjds_def read_vector_def
        open_SED_file_def logged_def
       split: option.splits sum.splits if_splits prod.splits)

section \<open>The argument 0.0\<close>

text \<open>
  Claim C10. The argument \<open>0.0\<close> is treated as an omitted argument (line 110 tests
  \<^verbatim>\<open>not mjd\<close>): the call works with the time of the collection, returns or stores the
  bracket of that time, and does not compute the bracket of the time 0. On the grid
  10, 20, 30 with the collection at 15, the call returns and stores \<open>(0, 1, 0.5)\<close>,
  where the computation for the time 0 would give \<open>(0, 0, None)\<close>.
\<close>

theorem find_mjd_interval_zero:
  "find_mjd_interval (Some 0) s = find_mjd_interval None s \<and>
   find_mjd_interval (Some 0) sn1 = Inr ((0, 1, Some (1 / 2)), sn1_located) \<and>
   interval [10, 20, 30] (Some 0) = Inr (0, 0, None)"
proof -
  have "query_mjd (Some 0) s = query_mjd None s" by (simp add: query_mjd_def)
  then have "find_mjd_interval (Some 0) s = find_mjd_interval None s"
    by (simp add: find_mjd_interval_def)
  moreover have "find_mjd_interval (Some 0) sn1 = Inr ((0, 1, Some (1 / 2)), sn1_located)"
    by (simp add: snana_defs)
  moreover have "interval [10, 20, 30] (Some 0) = Inr (0, 0, None)"
    by (simp add: interval_def)
  ultimately show ?thesis by simp
qed

text \<open>
  Claim C2, evaluated on the code. The docstring of \<^verbatim>\<open>_find_mjd_interval\<close> says that
  the time of the collection is used "If None", and \<^verbatim>\<open>_get_sed\<close> tests
  \<^verbatim>\<open>mjd is None\<close>; line 110 tests \<^verbatim>\<open>not mjd\<close>. On the grid 10, 20, 30 with the
  collection at 15 the insertion point of the time 0 is 0, for which the claim gives
  \<open>(0, 0, None)\<close>; the call with the argument \<open>0.0\<close> returns \<open>(0, 1, 0.5)\<close>, the
  bracket of the time 15, and stores it.
\<close>

theorem find_mjd_interval_zero_bracket:
  "find_mjd_interval (Some 0) sn1 = Inr ((0, 1, Some (1 / 2)), sn1_located) \<and>
   bisect [10, 20, 30] 0 = 0 \<and> insertion_point [10, 20, 30] 0 = 0 \<and>
   spec_locate [10, 20, 30] 0 = (0, 0, None) \<and>
   spec_locate [10, 20, 30] 15 = (0, 1, Some (1 / 2))"
proof -
  have "find_mjd_interval (Some 0) sn1 = Inr ((0, 1, Some (1 / 2)), sn1_located)"
    by (simp add: snana_defs)
  moreover have "insertion_point [10, 20, 30] 0 = 0"
    "spec_locate [10, 20, 30] 0 = (0, 0, None)"
    "spec_locate [10, 20, 30] 15 = (0, 1, Some (1 / 2))"
    by (simp_all add: spec_locate_def insertion_point_def)
  ultimately show ?thesis by simp
qed

text \<open>
  Claim C5, evaluated on the code. On the same object the time 0 lies before the grid
  (\<open>0 < T[0] = 10\<close>), where the claim puts both indices at 0; the call with the argument
  \<open>0.0\<close> returns the lower index 0 and the upper index 1 with the fraction 0.5, the
  bracket of the time 15 of the collection. The computation of lines 126 to 136 at the
  time 0 gives \<open>(0, 0, None)\<close>: the call does not reach it with that time.
\<close>

theorem find_mjd_interval_zero_clamp:
  "belongs_to_mjd sn1 = Some 15 \<and> (0 :: real) < [10, 20, 30] ! 0 \<and>
   find_mjd_interval (Some 0) sn1 = Inr ((0, 1, Some (1 / 2)), sn1_located) \<and>
   interval [10, 20, 30] (Some 0) = Inr (0, 0, None) \<and>
   interval [10, 20, 30] (Some 15) = Inr (0, 1, Some (1 / 2))"
proof -
  have "find_mjd_interval (Some 0) sn1 = Inr ((0, 1, Some (1 / 2)), sn1_located)"
    by (simp add: snana_defs)
  moreover have "interval [10, 20, 30] (Some 0) = Inr (0, 0, None)"
    "interval [10, 20, 30] (Some 15) = Inr (0, 1, Some (1 / 2))"
    by (simp_all add: interval_def)
  moreover have "belongs_to_mjd sn1 = Some 15" by (simp add: sn1_def new_SnanaObject_def)
  ultimately show ?thesis by simp
qed

section \<open>Errors\<close>

text \<open>The exceptions that \<^verbatim>\<open>_find_mjd_interval\<close> and the interpolation of lines 75 to 79 can raise.\<close>

lemma find_mjd_interval_errors:
  "find_mjd_interval mjd s = Inl e \<Longrightarrow> e = KeyError \<or> e = TypeError"
  by (cases "query_mjd mjd s")
     (auto simp: find_mjd_interval_def and_then_def load_mjds_def read_vector_def interval_def
        Let_def
       split: option.splits sum.splits if_splits prod.splits)

lemma getitem_errors: "getitem xs i = Inl e \<Longrightarrow> e = IndexError"
  by (auto simp: getitem_def split: if_splits)

lemma mag_cor_errors: "mag_cor b cors = Inl e \<Longrightarrow> e = IndexError \<or> e = TypeError"
  by (cases b)
     (auto simp: mag_cor_def and_then_def dest: getitem_errors
       split: option.splits sum.splits if_splits)

text \<open>
  Claim C7. For every band and time, \<^verbatim>\<open>get_LSST_flux\<close> raises
  \<^verbatim>\<open>SkyCatalogsRuntimeError\<close> (the negative-flux error) exactly when the flux that the
  base class returns is negative: a negative flux is never returned, clamped or
  corrected, and no other path raises this error.
\<close>

theorem get_LSST_flux_negative:
  assumes "super_get_LSST_flux band mjd s = Inr (flux, s0)"
  shows "(get_LSST_flux super_get_LSST_flux band mjd s = Inl SkyCatalogsRuntimeError) = (flux < 0)"
proof (cases "flux < 0")
  case True
  with assms show ?thesis by (simp add: get_LSST_flux_def and_then_def)
next
  case False
  have "get_LSST_flux super_get_LSST_flux band mjd s \<noteq> Inl SkyCatalogsRuntimeError"
  proof (cases "flux = 0")
    case True
    with assms show ?thesis by (simp add: get_LSST_flux_def and_then_def)
  next
    case pos: False
    show ?thesis
    proof (cases "find_mjd_interval mjd s0")
      case (Inl e)
      with find_mjd_interval_errors [OF Inl] assms False pos show ?thesis
        by (auto simp: get_LSST_flux_def and_then_def)
    next
      case (Inr r)
      obtain b s1 where r: "r = (b, s1)" by (cases r)
      show ?thesis
      proof (cases "stored_vector s1 (''magcor_'' @ band)")
        case None
        with assms False pos Inr r show ?thesis
          by (simp add: get_LSST_flux_def and_then_def)
      next
        case (Some cors)
        show ?thesis
        proof (cases "mag_cor b cors")
          case e: (Inl e)
          with mag_cor_errors [OF e] assms False pos Inr r Some show ?thesis
            by (auto simp: get_LSST_flux_def and_then_def)
        next
          case m: (Inr m)
          with assms False pos Inr r Some show ?thesis
            by (simp add: get_LSST_flux_def and_then_def)
        qed
      qed
    qed
  qed
  with False show ?thesis by simp
qed

theorem get_LSST_flux_negative_witness:
  "get_LSST_flux (\<lambda>band mjd s. Inr (- 1, s)) ''r'' None sn1 = Inl SkyCatalogsRuntimeError \<and>
   get_LSST_flux (\<lambda>band mjd s. Inr (7, s)) ''r'' None sn1 \<noteq> Inl SkyCatalogsRuntimeError"
  using get_LSST_flux_negative [of "\<lambda>band mjd s. Inr (- 1, s)" "''r''" None sn1 "- 1" sn1]
    get_LSST_flux_negative [of "\<lambda>band mjd s. Inr (7, s)" "''r''" None sn1 7 sn1]
  by simp

text \<open>
  Claim C8. When the flux of the base class is exactly 0, \<^verbatim>\<open>get_LSST_flux\<close> returns 0
  and the state the base class left: no file is opened and no dataset is looked up. When
  the flux is positive, the bracket is found and the object has no series
  \<^verbatim>\<open>magcor_<band>\<close>, it returns the flux unchanged, with no error; the file has been
  opened and the lookup attempted.
\<close>

theorem get_LSST_flux_zero_and_uncorrected:
  "(super_get_LSST_flux band mjd s = Inr (0, s0) \<longrightarrow>
      get_LSST_flux super_get_LSST_flux band mjd s = Inr (0, s0)) \<and>
   (super_get_LSST_flux band mjd s = Inr (flux, s0) \<and> 0 < flux \<and>
    find_mjd_interval mjd s0 = Inr (b, s1) \<and> stored_vector s0 (''magcor_'' @ band) = None \<longrightarrow>
      get_LSST_flux super_get_LSST_flux band mjd s =
        Inr (flux, logged (''magcor_'' @ band) (open_SED_file s1)))"
proof (intro conjI impI)
  assume "super_get_LSST_flux band mjd s = Inr (0, s0)"
  then show "get_LSST_flux super_get_LSST_flux band mjd s = Inr (0, s0)"
    by (simp add: get_LSST_flux_def and_then_def)
next
  assume a: "super_get_LSST_flux band mjd s = Inr (flux, s0) \<and> 0 < flux \<and>
    find_mjd_interval mjd s0 = Inr (b, s1) \<and> stored_vector s0 (''magcor_'' @ band) = None"
  then have "stored_vector s1 (''magcor_'' @ band) = None"
    using find_mjd_interval_frame [of mjd s0 b s1] by (simp add: stored_vector_def)
  with a show "get_LSST_flux super_get_LSST_flux band mjd s =
        Inr (flux, logged (''magcor_'' @ band) (open_SED_file s1))"
    by (simp add: get_LSST_flux_def and_then_def)
qed

theorem get_LSST_flux_zero_and_uncorrected_witness:
  "get_LSST_flux (\<lambda>band mjd s. Inr (0, s)) ''r'' None sn1 = Inr (0, sn1) \<and>
   find_mjd_interval None sn1 = Inr ((0, 1, Some (1 / 2)), sn1_located) \<and>
   stored_vector sn1 ''magcor_r'' = None \<and>
   get_LSST_flux (\<lambda>band mjd s. Inr (7, s)) ''r'' None sn1 =
     Inr (7, sn1_located\<lparr>io_log := [OpenFile, Lookup ''sn1'' ''mjd'', OpenFile,
                                     Lookup ''sn1'' ''magcor_r'']\<rparr>)"
proof -
  have v: "stored_vector sn1 ''magcor_r'' = None"
    by (simp add: stored_vector_def sn1_def new_SnanaObject_def example_file_def)
  have "logged ''magcor_r'' (open_SED_file sn1_located) =
      sn1_located\<lparr>io_log := [OpenFile, Lookup ''sn1'' ''mjd'', OpenFile,
                              Lookup ''sn1'' ''magcor_r'']\<rparr>"
    by (simp add: logged_def open_SED_file_def sn1_located_def sn1_def new_SnanaObject_def)
  then show ?thesis
    using get_LSST_flux_zero_and_uncorrected
        [of "\<lambda>band mjd s. Inr (0, s)" "''r''" None sn1 sn1 0 "(0, 0, None)" sn1]
      get_LSST_flux_zero_and_uncorrected
        [of "\<lambda>band mjd s. Inr (7, s)" "''r''" None sn1 sn1 7 "(0, 1, Some (1 / 2))" sn1_located]
      sn1_first_call v
    by simp
qed

section \<open>The validity window and the missing time\<close>

text \<open>
  Claim C6. For a time \<open>t\<close> strictly outside the window \<open>[start_mjd, end_mjd]\<close>, given
  as the argument or taken from the collection, \<^verbatim>\<open>_get_sed\<close> returns \<^verbatim>\<open>None\<close> and
  raises nothing, and the band flux is 0. The flux is the one of the base class as the
  spec describes it, followed by the correction of \<^verbatim>\<open>get_LSST_flux\<close>.
\<close>

theorem get_sed_outside_window:
  assumes "t < start_mjd s \<or> end_mjd s < t"
    and "mjd = Some t \<or> mjd = None \<and> belongs_to_mjd s = Some t"
  shows "get_sed mjd s = Inr ((None, 0), s) \<and>
    get_LSST_flux (base_get_LSST_flux calculateFlux extinction) band mjd s = Inr (0, s)"
proof -
  have g: "get_sed mjd s = Inr ((None, 0), s)"
    using assms by (auto simp: get_sed_def)
  then have "base_get_LSST_flux calculateFlux extinction band mjd s = Inr (0, s)"
    by (simp add: base_get_LSST_flux_def get_observer_sed_component_def and_then_def)
  then have "get_LSST_flux (base_get_LSST_flux calculateFlux extinction) band mjd s = Inr (0, s)"
    by (simp add: get_LSST_flux_def and_then_def)
  with g show ?thesis by simp
qed

theorem get_sed_outside_window_witness:
  "start_mjd sn1_late = 100 \<and> end_mjd sn1_late = 200 \<and>
   get_sed (Some 50) sn1_late = Inr ((None, 0), sn1_late) \<and>
   get_LSST_flux (base_get_LSST_flux (\<lambda>band sd. sum_list (snd sd)) (\<lambda>sd. sd)) ''r'' (Some 50)
     sn1_late = Inr (0, sn1_late)"
proof -
  have w: "start_mjd sn1_late = 100" "end_mjd sn1_late = 200"
    by (simp_all add: sn1_late_def new_SnanaObject_def)
  then have "50 < start_mjd sn1_late \<or> end_mjd sn1_late < 50" by simp
  from get_sed_outside_window [OF this, of "Some 50"] w show ?thesis by simp
qed

text \<open>
  Claim C9, as amended. With the time omitted, \<^verbatim>\<open>_get_sed\<close> uses the time of the
  collection and raises \<^verbatim>\<open>ValueError\<close> (the missing-time error) when the collection
  has none. \<^verbatim>\<open>_find_mjd_interval\<close> with the time omitted uses the time of the
  collection too, and never raises the missing-time error: it has no such check, and
  returns the stored bracket when there is one.
\<close>

theorem missing_time:
  "(belongs_to_mjd s = None \<longrightarrow> get_sed None s = Inl ValueError) \<and>
   (belongs_to_mjd s = Some t \<longrightarrow>
      get_sed None s = get_sed (Some t) s \<and>
      find_mjd_interval None s = find_mjd_interval (Some t) s) \<and>
   find_mjd_interval mjd s \<noteq> Inl ValueError \<and>
   (belongs_to_mjd s = None \<and> mjd_ix s = Some b \<longrightarrow> find_mjd_interval None s = Inr (b, s))"
proof (intro conjI impI)
  show "find_mjd_interval mjd s \<noteq> Inl ValueError"
    using find_mjd_interval_errors [of mjd s ValueError] by auto
next
  assume "belongs_to_mjd s = None \<and> mjd_ix s = Some b"
  then show "find_mjd_interval None s = Inr (b, s)"
    by (simp add: find_mjd_interval_def query_mjd_def)
next
  assume "belongs_to_mjd s = None"
  then show "get_sed None s = Inl ValueError" by (simp add: get_sed_def)
next
  assume t: "belongs_to_mjd s = Some t"
  then show "get_sed None s = get_sed (Some t) s" by (simp add: get_sed_def)
  from t have "query_mjd None s = query_mjd (Some t) s" by (simp add: query_mjd_def)
  then show "find_mjd_interval None s = find_mjd_interval (Some t) s"
    by (simp add: find_mjd_interval_def)
qed

theorem missing_time_witness:
  "belongs_to_mjd sn1_no_time = None \<and> get_sed None sn1_no_time = Inl ValueError \<and>
   belongs_to_mjd sn1 = Some 15 \<and> get_sed None sn1 = get_sed (Some 15) sn1 \<and>
   find_mjd_interval None sn1 = find_mjd_interval (Some 15) sn1 \<and>
   belongs_to_mjd sn1_time_unset = None \<and> mjd_ix sn1_time_unset = Some (0, 1, Some (1 / 2)) \<and>
   find_mjd_interval None sn1_time_unset = Inr ((0, 1, Some (1 / 2)), sn1_time_unset)"
proof -
  have n: "belongs_to_mjd sn1_no_time = None" by (simp add: sn1_no_time_def new_SnanaObject_def)
  have m: "belongs_to_mjd sn1 = Some 15" by (simp add: sn1_def new_SnanaObject_def)
  have u: "belongs_to_mjd sn1_time_unset = None"
    "mjd_ix sn1_time_unset = Some (0, 1, Some (1 / 2))"
    by (simp_all add: sn1_time_unset_def sn1_located_def)
  show ?thesis
    using missing_time [of sn1_no_time 0 None "(0, 0, None)"]
      missing_time [of sn1 15 None "(0, 0, None)"]
      missing_time [of sn1_time_unset 0 None "(0, 1, Some (1 / 2))"] n m u
    by simp
qed

text \<open>
  The claim as stated fails for \<^verbatim>\<open>_find_mjd_interval\<close>: with no time in the
  collection and the time omitted, an object with a stored bracket returns it, and a new
  object raises \<^verbatim>\<open>TypeError\<close> inside the binary search.
\<close>

theorem missing_time_counterexample:
  "belongs_to_mjd sn1_time_unset = None \<and>
   find_mjd_interval None sn1_time_unset = Inr ((0, 1, Some (1 / 2)), sn1_time_unset) \<and>
   belongs_to_mjd sn1_no_time = None \<and> find_mjd_interval None sn1_no_time = Inl TypeError"
  by (simp add: snana_defs)

section \<open>The SED at the ends of the grid\<close>

text \<open>
  When both indices of the bracket are equal, line 157 reads the dataset \<^verbatim>\<open>flamba\<close>;
  a file that holds the flux densities as \<^verbatim>\<open>flambda\<close> (the name that lines 160 and
  161 read) gives \<^verbatim>\<open>KeyError\<close>.
\<close>

lemma linear_interp_SED_clamped:
  assumes "find_mjd_interval mjd s = Inr ((l, l, fr), s1)" and "stored_table s ''flamba'' = None"
  shows "linear_interp_SED mjd s = Inl KeyError"
proof -
  have t: "\<And>s'. obj_id s' = obj_id s \<Longrightarrow> belongs_to_SED_file s' = belongs_to_SED_file s \<Longrightarrow>
      read_flambda (l, l, fr) s' = Inl KeyError"
    using assms(2) by (simp add: read_flambda_def read_table_def stored_table_def and_then_def)
  have s1: "obj_id s1 = obj_id s" "belongs_to_SED_file s1 = belongs_to_SED_file s"
    using find_mjd_interval_frame [OF assms(1)] by simp_all
  show ?thesis
  proof (cases "load_grids (open_SED_file s1)")
    case (Inl e)
    then have "e = KeyError"
      by (auto simp: load_grids_def read_vector_def and_then_def
          split: if_splits option.splits sum.splits)
    with Inl assms(1) show ?thesis by (simp add: linear_interp_SED_def and_then_def)
  next
    case (Inr s2)
    then have "obj_id s2 = obj_id s \<and> belongs_to_SED_file s2 = belongs_to_SED_file s"
      using s1
      by (auto simp: load_grids_def read_vector_def and_then_def open_SED_file_def logged_def
          split: if_splits option.splits sum.splits)
    then have "read_flambda (l, l, fr) s2 = Inl KeyError" using t by simp
    with Inr assms(1) show ?thesis by (simp add: linear_interp_SED_def and_then_def)
  qed
qed

text \<open>
  Claim C3, evaluated on the code. On the grid 10, 20, 30 with the rows 1, 2, 3 and the
  window 0 to 100, the claim gives the values 1 at the time 5 and 3 at the time 35;
  \<^verbatim>\<open>_get_sed\<close> raises \<^verbatim>\<open>KeyError\<close> at both. With two wavelength channels
  (\<open>sn3\<close>) it raises \<^verbatim>\<open>KeyError\<close> at the times 5, 30 and 35 as well, and at the
  time 15 the other branch interpolates the rows to 1.5 and 15. On the one channel of
  \<open>sn1\<close> the time 15 ends in the \<^verbatim>\<open>GalSimValueError\<close> of a table of one point.
\<close>

theorem get_sed_clamped_KeyError:
  "get_sed (Some 5) sn1 = Inl KeyError \<and> get_sed (Some 35) sn1 = Inl KeyError \<and>
   get_sed (Some 5) sn3 = Inl KeyError \<and> get_sed (Some 30) sn3 = Inl KeyError \<and>
   get_sed (Some 35) sn3 = Inl KeyError \<and>
   (\<exists>s'. get_sed (Some 15) sn3 = Inr ((Some ([5000, 6000], [3 / 2, 15]), 0), s')) \<and>
   get_sed (Some 15) sn1 = Inl GalSimValueError"
proof -
  have b: "bisect [10, 20, 30] 30 = 3" by (simp add: bisect_sorted)
  have "get_sed (Some 5) sn1 = Inl KeyError" "get_sed (Some 35) sn1 = Inl KeyError"
    "get_sed (Some 5) sn3 = Inl KeyError" "get_sed (Some 35) sn3 = Inl KeyError"
    "get_sed (Some 15) sn1 = Inl GalSimValueError"
    by (simp_all add: snana_defs)
  moreover have "get_sed (Some 30) sn3 = Inl KeyError"
    by (simp add: snana_defs b)
  moreover have "\<exists>s'. get_sed (Some 15) sn3 = Inr ((Some ([5000, 6000], [3 / 2, 15]), 0), s')"
    by (simp add: snana_defs)
  ultimately show ?thesis by simp
qed

section \<open>The literal of \<^verbatim>\<open>_flux_ratio\<close>\<close>

text \<open>
  The literal 0.921034037196184 of line 55 is smaller than \<open>ln 10 / 2.5\<close>: two and a
  half times the literal is 2.30258509299046, and its exponential is below 10. The
  exponential is bounded through its sixteenth root, with ten terms of the series and
  the remainder.
\<close>

lemma exp_sixteenth_bound:
  "exp (230258509299046 / (16 * 10 ^ 14) :: real) \<le> 144347748086150053 / 125000000000000000"
proof -
  define x :: real where "x = 230258509299046 / (16 * 10 ^ 14)"
  obtain t where t: "\<bar>t\<bar> \<le> \<bar>x\<bar>"
    and e: "exp x = (\<Sum>m<10. x ^ m / fact m) + exp t / fact 10 * x ^ 10"
    using Maclaurin_exp_le [of x 10] by blast
  have x0: "0 \<le> x" "x \<le> 1 / 2" by (simp_all add: x_def)
  with t have "norm t \<le> 1 / 2" by simp
  then have "norm (exp t) \<le> 2" by (rule exp_bound_half)
  then have t2: "exp t \<le> 2" by simp
  have "exp t / fact 10 * x ^ 10 \<le> 2 / fact 10 * x ^ 10"
    using t2 x0 by (intro mult_right_mono divide_right_mono) simp_all
  with e have "exp x \<le> (\<Sum>m<10. x ^ m / fact m) + 2 / fact 10 * x ^ 10" by simp
  also have "\<dots> \<le> 144347748086150053 / 125000000000000000"
    unfolding x_def by (simp add: eval_nat_numeral sum.lessThan_Suc)
  finally show ?thesis by (simp add: x_def)
qed

lemma sixteenth_power_bound: "(144347748086150053 / 125000000000000000 :: real) ^ 16 < 10"
proof -
  have "(144347748086150053 :: real) ^ 16 < 10 * 125000000000000000 ^ 16" by simp
  then show ?thesis by (simp add: power_divide)
qed

lemma exp_literal_less_10: "exp (230258509299046 / 10 ^ 14 :: real) < 10"
proof -
  have "exp (230258509299046 / 10 ^ 14 :: real) =
      exp (of_nat 16 * (230258509299046 / (16 * 10 ^ 14)))"
    by simp
  also have "\<dots> = exp (230258509299046 / (16 * 10 ^ 14)) ^ 16"
    by (rule exp_of_nat_mult)
  also have "\<dots> \<le> (144347748086150053 / 125000000000000000) ^ 16"
    using exp_sixteenth_bound by (intro power_mono) simp_all
  also have "\<dots> < 10" by (rule sixteenth_power_bound)
  finally show ?thesis .
qed

lemma literal_less_ln_10: "921034037196184 / 10 ^ 15 < ln (10 :: real) / (5 / 2)"
proof -
  have "exp (230258509299046 / 10 ^ 14 :: real) < exp (ln 10)"
    using exp_literal_less_10 by simp
  then have "230258509299046 / 10 ^ 14 < ln (10 :: real)"
    by (simp only: exp_less_cancel_iff)
  then show ?thesis by simp
qed

text \<open>So the ratio of the code is the ratio of the magnitude relation at \<open>mag = 0\<close> only.\<close>

lemma flux_ratio_exact_iff:
  "flux_ratio mag = exp (- (ln 10 / (5 / 2)) * mag) \<longleftrightarrow> mag = 0"
proof -
  have "flux_ratio mag = exp (- (ln 10 / (5 / 2)) * mag) \<longleftrightarrow>
      - (921034037196184 / 10 ^ 15) * mag = - (ln 10 / (5 / 2)) * mag"
    unfolding flux_ratio_def by (rule exp_inj_iff)
  also have "\<dots> \<longleftrightarrow> mag = 0"
    using literal_less_ln_10 by auto
  finally show ?thesis .
qed

text \<open>What \<^verbatim>\<open>get_LSST_flux\<close> returns when the band has a correction series.\<close>

lemma get_LSST_flux_corrected:
  assumes "super_get_LSST_flux band mjd s = Inr (flux, s0)" and "0 < flux"
    and "find_mjd_interval mjd s0 = Inr (b, s1)"
    and "stored_vector s0 (''magcor_'' @ band) = Some cors"
    and "mag_cor b cors = Inr m"
  shows "get_LSST_flux super_get_LSST_flux band mjd s =
     Inr (flux * exp (- (921034037196184 / 10 ^ 15) * m),
          logged (''magcor_'' @ band) (open_SED_file s1))"
proof -
  have "stored_vector s1 (''magcor_'' @ band) = Some cors"
    using assms(4) find_mjd_interval_frame [OF assms(3)] by (simp add: stored_vector_def)
  with assms show ?thesis
    by (simp add: get_LSST_flux_def and_then_def flux_ratio_def)
qed

lemma mag_cor_value:
  "l < length cors \<Longrightarrow> mag_cor (l, l, fr) cors = Inr (cors ! l)"
  "l \<noteq> u \<Longrightarrow> l < length cors \<Longrightarrow> u < length cors \<Longrightarrow>
   mag_cor (l, u, Some x) cors = Inr (cors ! l + x * (cors ! u - cors ! l))"
  by (simp_all add: mag_cor_def getitem_def and_then_def)

text \<open>
  Claim C1, evaluated on the code. For the flux 100 and the corrections 0.0, 0.2 at
  the fraction 0.5 the magnitude is 0.1, and \<^verbatim>\<open>get_LSST_flux\<close> returns
  \<open>100 * exp (-0.921034037196184 * 0.1)\<close>. This is not
  \<open>100 * exp (-(ln 10 / 2.5) * 0.1)\<close>, and the literal is not the value
  0.9210340371976184 that the comment of line 54 and the claim give.
\<close>

theorem get_LSST_flux_literal:
  "(\<exists>s'. get_LSST_flux (\<lambda>band mjd s. Inr (100, s)) ''r'' None sn2 =
          Inr (100 * exp (- (921034037196184 / 10 ^ 15) * (1 / 10)), s')) \<and>
   100 * exp (- (921034037196184 / 10 ^ 15) * (1 / 10)) \<noteq>
     (100 :: real) * exp (- (ln 10 / (5 / 2)) * (1 / 10)) \<and>
   (921034037196184 / 10 ^ 15 :: real) \<noteq> 9210340371976184 / 10 ^ 16"
proof (intro conjI)
  have f: "find_mjd_interval None sn2 =
      Inr ((0, 1, Some (1 / 2)),
           sn2\<lparr>mjds := Some [10, 20], mjd_ix := Some (0, 1, Some (1 / 2)),
               io_log := [OpenFile, Lookup ''sn2'' ''mjd'']\<rparr>)"
    by (simp add: snana_defs)
  have v: "stored_vector sn2 (''magcor_'' @ ''r'') = Some [0, 2 / 10]"
    by (simp add: snana_defs)
  have m: "mag_cor (0, 1, Some (1 / 2)) [0, 2 / 10] = Inr (1 / 10)"
    by (simp add: mag_cor_def getitem_def and_then_def)
  show "\<exists>s'. get_LSST_flux (\<lambda>band mjd s. Inr (100, s)) ''r'' None sn2 =
          Inr (100 * exp (- (921034037196184 / 10 ^ 15) * (1 / 10)), s')"
    using get_LSST_flux_corrected [of "\<lambda>band mjd s. Inr (100, s)" "''r''" None sn2 100 sn2,
        OF _ _ f v m]
    by simp
  have "flux_ratio (1 / 10) \<noteq> exp (- (ln 10 / (5 / 2)) * (1 / 10))"
    using flux_ratio_exact_iff [of "1 / 10"] by simp
  then show "100 * exp (- (921034037196184 / 10 ^ 15) * (1 / 10)) \<noteq>
     (100 :: real) * exp (- (ln 10 / (5 / 2)) * (1 / 10))"
    by (simp add: flux_ratio_def)
  show "(921034037196184 / 10 ^ 15 :: real) \<noteq> 9210340371976184 / 10 ^ 16" by simp
qed

end
